theory Spec2Isabelle
  imports Main "HOL-Library.Multiset" "HOL-Library.Product_Lexorder"
begin

section \<open>The proposal models (src/proposals/models.py)\<close>

text \<open>
  Rows are identified by their primary keys, which are Python integers. A foreign key
  to the user model is the primary key of the user row; Django compares two model
  instances of one concrete model by primary key, so two user references are equal
  exactly when the keys are. Every exception the module can raise is a value of
  \<open>error\<close>, and a function that can raise returns \<open>error + 'a\<close>.
\<close>

datatype error = ValueError | AttributeError | ZeroDivisionError | IntegrityError

type_synonym user = int

subsection \<open>AdditionalSpeaker\<close>

datatype speaking_status =
  SPEAKING_STATUS_PENDING | SPEAKING_STATUS_ACCEPTED | SPEAKING_STATUS_DECLINED

text \<open>
  \<open>as_proposal_type\<close> is the key of the content-type row of the proposal model,
  \<open>as_proposal_id\<close> the key of the proposal: together the generic foreign key.
\<close>

record AdditionalSpeaker =
  as_pk :: int
  as_user :: user
  as_proposal_type :: int
  as_proposal_id :: int
  as_status :: speaking_status
  as_cancelled :: bool


text \<open>\<open>Meta.unique_together = ['user', 'proposal_type', 'proposal_id']\<close>\<close>

definition AdditionalSpeaker_unique_together :: "AdditionalSpeaker \<Rightarrow> user \<times> int \<times> int" where
  "AdditionalSpeaker_unique_together a = (as_user a, as_proposal_type a, as_proposal_id a)"

subsection \<open>AbstractProposal\<close>

text \<open>
  The fields of \<open>AbstractProposal\<close>, with \<open>title\<close>, \<open>abstract\<close> and
  \<open>detailed_description\<close> of the \<open>EventInfo\<close> base. \<open>content_type\<close> is the key
  of the content-type row of the concrete model (talk or tutorial proposal).
  \<open>accepted\<close> is the nullable boolean. The two attributes a caller may attach to
  an instance, \<open>_additional_speaker_count\<close> and \<open>_additional_speakers\<close>, are
  options: \<open>None\<close> is the attribute being absent, where reading it raises
  \<open>AttributeError\<close>.
\<close>

record AbstractProposal =
  pk :: int
  content_type :: int
  submitter :: user
  title :: string
  abstract :: string
  detailed_description :: string
  outline :: string
  objective :: string
  supplementary :: string
  cancelled :: bool
  accepted :: "bool option"
  labels :: string
  attr_additional_speaker_count :: "int option"
  attr_additional_speakers :: "AdditionalSpeaker list option"

text \<open>
  Django's \<open>Model.__eq__\<close> on two saved instances: the same concrete model and the
  same primary key. The field values play no part.
\<close>

definition Model_eq :: "AbstractProposal \<Rightarrow> AbstractProposal \<Rightarrow> bool" where
  "Model_eq p q = (content_type p = content_type q \<and> pk p = pk q)"

text \<open>\<open>==\<close> on two references that may be \<open>None\<close>.\<close>

fun reference_eq :: "AbstractProposal option \<Rightarrow> AbstractProposal option \<Rightarrow> bool" where
  "reference_eq None None = True"
| "reference_eq (Some p) (Some q) = Model_eq p q"
| "reference_eq _ _ = False"

subsection \<open>PrimarySpeaker\<close>

record PrimarySpeaker =
  priv_proposal :: "AbstractProposal option"
  priv_user :: user

text \<open>
  \<open>__init__(self, *, proposal=None, user=None)\<close>. A user instance is truthy, so
  \<open>user or proposal.submitter\<close> is the user when one is given and the proposal's
  submitter otherwise; reading \<open>submitter\<close> of \<open>None\<close> would raise
  \<open>AttributeError\<close>.
\<close>

definition PrimarySpeaker_init ::
  "AbstractProposal option \<Rightarrow> user option \<Rightarrow> error + PrimarySpeaker" where
  "PrimarySpeaker_init proposal user =
     (if proposal = None \<and> user = None then Inl ValueError
      else (case user of
              Some u \<Rightarrow> Inr \<lparr>priv_proposal = proposal, priv_user = u\<rparr>
            | None \<Rightarrow>
                (case proposal of
                   Some p \<Rightarrow> Inr \<lparr>priv_proposal = proposal, priv_user = submitter p\<rparr>
                 | None \<Rightarrow> Inl AttributeError)))"

definition PrimarySpeaker_user :: "PrimarySpeaker \<Rightarrow> user" where
  "PrimarySpeaker_user self = priv_user self"

definition PrimarySpeaker_proposal :: "PrimarySpeaker \<Rightarrow> AbstractProposal option" where
  "PrimarySpeaker_proposal self = priv_proposal self"

definition PrimarySpeaker_cancelled :: "PrimarySpeaker \<Rightarrow> bool" where
  "PrimarySpeaker_cancelled self = False"

text \<open>What iterating \<open>speakers\<close> yields: wrappers and additional-speaker rows.\<close>

datatype speaker = Primary PrimarySpeaker | Additional AdditionalSpeaker

text \<open>\<open>__eq__(self, other)\<close>; the first conjunct is \<open>isinstance(other, PrimarySpeaker)\<close>.\<close>

fun PrimarySpeaker_eq :: "PrimarySpeaker \<Rightarrow> speaker \<Rightarrow> bool" where
  "PrimarySpeaker_eq self (Primary other) =
     (PrimarySpeaker_user self = PrimarySpeaker_user other \<and>
      reference_eq (PrimarySpeaker_proposal self) (PrimarySpeaker_proposal other))"
| "PrimarySpeaker_eq self (Additional other) = False"

subsection \<open>Completion metrics\<close>

definition must_fill_fields :: "string list" where
  "must_fill_fields =
     [''abstract'', ''objective'', ''supplementary'', ''detailed_description'', ''outline'']"

text \<open>\<open>getattr(self, f)\<close> on the text fields; any other name raises here.\<close>

definition getattr :: "AbstractProposal \<Rightarrow> string \<Rightarrow> error + string" where
  "getattr self f =
     (if f = ''title'' then Inr (title self)
      else if f = ''abstract'' then Inr (abstract self)
      else if f = ''detailed_description'' then Inr (detailed_description self)
      else if f = ''outline'' then Inr (outline self)
      else if f = ''objective'' then Inr (objective self)
      else if f = ''supplementary'' then Inr (supplementary self)
      else if f = ''labels'' then Inr (labels self)
      else Inl AttributeError)"

definition must_fill_fields_count :: "AbstractProposal \<Rightarrow> int" where
  "must_fill_fields_count self = int (length must_fill_fields)"

text \<open>\<open>sum(1 for f in fields if getattr(self, f))\<close>: a string is truthy when non-empty.\<close>

fun sum_truthy :: "AbstractProposal \<Rightarrow> string list \<Rightarrow> error + int" where
  "sum_truthy self [] = Inr 0"
| "sum_truthy self (f # fs) =
     (case getattr self f of
        Inl e \<Rightarrow> Inl e
      | Inr v \<Rightarrow>
          (case sum_truthy self fs of
             Inl e \<Rightarrow> Inl e
           | Inr n \<Rightarrow> Inr ((if v \<noteq> [] then 1 else 0) + n)))"

definition finished_fields_count :: "AbstractProposal \<Rightarrow> error + int" where
  "finished_fields_count self = sum_truthy self must_fill_fields"

text \<open>Python's \<open>//\<close> on integers: floor division, raising on a zero divisor.\<close>

definition floordiv :: "int \<Rightarrow> int \<Rightarrow> error + int" where
  "floordiv a b = (if b = 0 then Inl ZeroDivisionError else Inr (a div b))"

definition finish_percentage :: "AbstractProposal \<Rightarrow> error + int" where
  "finish_percentage self =
     (case finished_fields_count self of
        Inl e \<Rightarrow> Inl e
      | Inr n \<Rightarrow> floordiv (100 * n) (must_fill_fields_count self))"

definition unfinished_fields_count :: "AbstractProposal \<Rightarrow> error + int" where
  "unfinished_fields_count self =
     (case finished_fields_count self of
        Inl e \<Rightarrow> Inl e
      | Inr n \<Rightarrow> Inr (must_fill_fields_count self - n))"

subsection \<open>ProposalQuerySet\<close>

text \<open>\<open>self.filter(cancelled=False, accepted=True)\<close>\<close>

definition filter_accepted :: "AbstractProposal list \<Rightarrow> AbstractProposal list" where
  "filter_accepted self = filter (\<lambda>p. cancelled p = False \<and> accepted p = Some True) self"

text \<open>
  The requesting user as the query-set filters read it: its key and its
  \<open>cospeaking_info_set\<close>, the additional-speaker rows the user model associates
  with the user (that model is not part of this module, so the rows are taken as
  they come).
\<close>

record User =
  user_pk :: int
  cospeaking_info_set :: "AdditionalSpeaker list"

text \<open>
  The generic relation: a row of the additional-speaker table belongs to a proposal
  when its content type and object id are the proposal's.
\<close>

definition relates_to :: "AbstractProposal \<Rightarrow> AdditionalSpeaker \<Rightarrow> bool" where
  "relates_to p a = (as_proposal_type a = content_type p \<and> as_proposal_id a = pk p)"

text \<open>\<open>additionalspeaker_set__in=qs\<close>: the row's key is among the keys of \<open>qs\<close>.\<close>

definition pk_in :: "AdditionalSpeaker \<Rightarrow> AdditionalSpeaker list \<Rightarrow> bool" where
  "pk_in a qs = (as_pk a \<in> set (map as_pk qs))"

text \<open>
  \<open>filter\<close> over the multi-valued relation joins each proposal with its
  additional-speaker rows (a left outer join: a proposal with none is joined with
  NULL), keeps the joined rows that satisfy the condition and returns the proposal
  of each, so a proposal can come out more than once.
\<close>

definition left_join :: "AdditionalSpeaker list \<Rightarrow> AbstractProposal \<Rightarrow> AdditionalSpeaker option list" where
  "left_join tbl p =
     (if filter (relates_to p) tbl = [] then [None] else map Some (filter (relates_to p) tbl))"

definition filter_viewable ::
  "AdditionalSpeaker list \<Rightarrow> AbstractProposal list \<Rightarrow> User \<Rightarrow> AbstractProposal list" where
  "filter_viewable tbl self user =
     concat (map (\<lambda>p. map (\<lambda>j. p)
                   (filter (\<lambda>j. submitter p = user_pk user \<or>
                                (case j of None \<Rightarrow> False
                                 | Some a \<Rightarrow> pk_in a (cospeaking_info_set user)))
                      (left_join tbl p)))
               self)"

text \<open>
  \<open>exclude\<close> over the multi-valued relation tests the relation with a subquery:
  a proposal is dropped when one of its rows satisfies the condition.
\<close>

definition filter_reviewable ::
  "AdditionalSpeaker list \<Rightarrow> AbstractProposal list \<Rightarrow> User \<Rightarrow> AbstractProposal list" where
  "filter_reviewable tbl self user =
     filter (\<lambda>p. \<not> (cancelled p = True \<or> submitter p = user_pk user \<or>
                      list_ex (\<lambda>a. pk_in a (cospeaking_info_set user))
                        (filter (relates_to p) tbl)))
       self"

subsection \<open>Speakers of a proposal\<close>











subsection \<open>LLMReview\<close>

datatype review_stage = STAGE_1 | STAGE_2

record LLMReview =
  llm_pk :: int
  llm_proposal :: int
  llm_stage :: review_stage
  llm_categories :: "string list"
  llm_summary :: string
  llm_comment :: string
  llm_translated_summary :: string
  llm_translated_comment :: string
  llm_vote :: string
  llm_created_at :: int
  llm_stage_diff :: string
  llm_translated_stage_diff :: string

text \<open>\<open>Meta.unique_together = (('proposal', 'stage'),)\<close>\<close>

definition LLMReview_unique_together :: "LLMReview \<Rightarrow> int \<times> review_stage" where
  "LLMReview_unique_together r = (llm_proposal r, llm_stage r)"

subsection \<open>Inserting rows\<close>

text \<open>
  Modelled from the spec: the storage layer's insert, which is not part of this
  module. The table enforces the declared uniqueness constraint: inserting a row
  whose constrained fields equal those of a stored row is refused with a conflict
  fault and leaves the table as it was; any other row is appended.
\<close>

definition insert_row :: "('r \<Rightarrow> 'k) \<Rightarrow> 'r list \<Rightarrow> 'r \<Rightarrow> error + 'r list" where
  "insert_row unique_together tbl r =
     (if unique_together r \<in> set (map unique_together tbl) then Inl IntegrityError
      else Inr (tbl @ [r]))"

text \<open>
  Modelled from the spec: a sequence of inserts into a table, each fault propagating
  to its caller and changing nothing.
\<close>

fun insert_rows :: "('r \<Rightarrow> 'k) \<Rightarrow> 'r list \<Rightarrow> 'r list \<Rightarrow> 'r list" where
  "insert_rows unique_together tbl [] = tbl"
| "insert_rows unique_together tbl (r # rs) =
     (case insert_row unique_together tbl r of
        Inl e \<Rightarrow> insert_rows unique_together tbl rs
      | Inr tbl' \<Rightarrow> insert_rows unique_together tbl' rs)"

definition insert_AdditionalSpeaker ::
  "AdditionalSpeaker list \<Rightarrow> AdditionalSpeaker \<Rightarrow> error + AdditionalSpeaker list" where
  "insert_AdditionalSpeaker tbl a = insert_row AdditionalSpeaker_unique_together tbl a"

definition insert_LLMReview :: "LLMReview list \<Rightarrow> LLMReview \<Rightarrow> error + LLMReview list" where
  "insert_LLMReview tbl r = insert_row LLMReview_unique_together tbl r"

subsection \<open>Example rows\<close>

text \<open>
  A proposal of the talk model (content type 7) with the given key, submitter and
  cancelled flag, and an additional-speaker row for a proposal of that model.
\<close>

definition talk :: "int \<Rightarrow> user \<Rightarrow> bool \<Rightarrow> AbstractProposal" where
  "talk i u c =
     \<lparr>pk = i, content_type = 7, submitter = u, title = ''Talk'', abstract = [],
      detailed_description = [], outline = ''Outline'', objective = ''Objective'',
      supplementary = [], cancelled = c, accepted = None, labels = [],
      attr_additional_speaker_count = None, attr_additional_speakers = None\<rparr>"

definition cospeaker :: "int \<Rightarrow> user \<Rightarrow> int \<Rightarrow> bool \<Rightarrow> AdditionalSpeaker" where
  "cospeaker i u p c =
     \<lparr>as_pk = i, as_user = u, as_proposal_type = 7, as_proposal_id = p,
      as_status = SPEAKING_STATUS_ACCEPTED, as_cancelled = c\<rparr>"

definition review :: "int \<Rightarrow> int \<Rightarrow> review_stage \<Rightarrow> LLMReview" where
  "review i p s =
     \<lparr>llm_pk = i, llm_proposal = p, llm_stage = s, llm_categories = [],
      llm_summary = ''Summary'', llm_comment = ''Comment'', llm_translated_summary = [],
      llm_translated_comment = [], llm_vote = ''+1'', llm_created_at = 0,
      llm_stage_diff = [], llm_translated_stage_diff = []\<rparr>"

text \<open>
  A table with three rows for the talk with key 1 (one of them cancelled) and one
  row for the talk with key 2, stored out of key order; a requesting user who is a
  co-speaker of both talks; and a collection of four talks.
\<close>

definition example_table :: "AdditionalSpeaker list" where
  "example_table =
     [cospeaker 3 30 1 False, cospeaker 1 20 1 False, cospeaker 2 40 1 True,
      cospeaker 4 20 2 False]"

definition example_user :: User where
  "example_user =
     \<lparr>user_pk = 20, cospeaking_info_set = [cospeaker 1 20 1 False, cospeaker 4 20 2 False]\<rparr>"

definition example_proposals :: "AbstractProposal list" where
  "example_proposals = [talk 1 10 False, talk 2 20 False, talk 3 50 False, talk 4 60 True]"

section \<open>Properties\<close>

subsection \<open>PrimarySpeaker\<close>


text \<open>
  C7. Constructing a PrimarySpeaker with neither a proposal nor a user raises
  ValueError; with a proposal, or with a user, the construction returns a wrapper.
\<close>

theorem PrimarySpeaker_init_fails_only_without_both:
  "PrimarySpeaker_init None None = Inl ValueError
   \<and> (\<forall>p user. \<exists>s. PrimarySpeaker_init (Some p) user = Inr s)
   \<and> (\<forall>proposal u. \<exists>s. PrimarySpeaker_init proposal (Some u) = Inr s)"
  by (auto simp: PrimarySpeaker_init_def split: option.splits)

text \<open>
  C10. A PrimarySpeaker built from a user alone exists and its proposal is None;
  built from a proposal alone its user is the proposal's submitter; and a user that
  is given is kept, so nothing is ever derived from the user towards a proposal.
\<close>

theorem PrimarySpeaker_derives_user_only:
  "(\<exists>s. PrimarySpeaker_init None (Some u) = Inr s
        \<and> PrimarySpeaker_proposal s = None \<and> PrimarySpeaker_user s = u)
   \<and> (\<exists>s. PrimarySpeaker_init (Some p) None = Inr s
        \<and> PrimarySpeaker_proposal s = Some p \<and> PrimarySpeaker_user s = submitter p)
   \<and> (\<exists>s. PrimarySpeaker_init proposal (Some u) = Inr s
        \<and> PrimarySpeaker_proposal s = proposal \<and> PrimarySpeaker_user s = u)"
  by (simp add: PrimarySpeaker_init_def PrimarySpeaker_proposal_def PrimarySpeaker_user_def)

lemma reference_eq_refl: "reference_eq r r"
  by (cases r) (simp_all add: Model_eq_def)

lemma reference_eq_sym: "reference_eq r s = reference_eq s r"
  by (cases r; cases s) (auto simp: Model_eq_def)

text \<open>
  C8. Two PrimarySpeaker instances compare equal exactly when their users are the
  same and their proposals are the same reference (both None, or the same row of
  the same model); the comparison is reflexive and symmetric. For wrappers as
  constructed: two built on proposals are equal exactly when the users they end up
  with are equal and the proposals are the same row; two built on users alone are
  equal exactly when the users are; one built on a user alone never equals one
  built on a proposal.
\<close>

theorem PrimarySpeaker_eq_iff_same_user_and_proposal:
  "(PrimarySpeaker_eq a (Primary b) \<longleftrightarrow>
      PrimarySpeaker_user a = PrimarySpeaker_user b
      \<and> reference_eq (PrimarySpeaker_proposal a) (PrimarySpeaker_proposal b))
   \<and> PrimarySpeaker_eq a (Primary a)
   \<and> PrimarySpeaker_eq a (Primary b) = PrimarySpeaker_eq b (Primary a)
   \<and> (case (PrimarySpeaker_init (Some p) u, PrimarySpeaker_init (Some q) v) of
         (Inr x, Inr y) \<Rightarrow>
           PrimarySpeaker_eq x (Primary y) =
             ((case u of Some i \<Rightarrow> i | None \<Rightarrow> submitter p) =
                (case v of Some j \<Rightarrow> j | None \<Rightarrow> submitter q)
              \<and> content_type p = content_type q \<and> pk p = pk q)
       | _ \<Rightarrow> False)
   \<and> (case (PrimarySpeaker_init None (Some i), PrimarySpeaker_init None (Some j)) of
         (Inr x, Inr y) \<Rightarrow> PrimarySpeaker_eq x (Primary y) = (i = j)
       | _ \<Rightarrow> False)
   \<and> (case (PrimarySpeaker_init None (Some i), PrimarySpeaker_init (Some q) v) of
         (Inr x, Inr y) \<Rightarrow> \<not> PrimarySpeaker_eq x (Primary y)
       | _ \<Rightarrow> False)"
proof -
  have 1: "PrimarySpeaker_eq a (Primary b) \<longleftrightarrow>
      PrimarySpeaker_user a = PrimarySpeaker_user b
      \<and> reference_eq (PrimarySpeaker_proposal a) (PrimarySpeaker_proposal b)"
    by simp
  have 2: "PrimarySpeaker_eq a (Primary a)"
    by (simp add: reference_eq_refl)
  have 3: "PrimarySpeaker_eq a (Primary b) = PrimarySpeaker_eq b (Primary a)"
    using reference_eq_sym [of "PrimarySpeaker_proposal a" "PrimarySpeaker_proposal b"]
    by auto
  have 4: "(case (PrimarySpeaker_init (Some p) u, PrimarySpeaker_init (Some q) v) of
         (Inr x, Inr y) \<Rightarrow>
           PrimarySpeaker_eq x (Primary y) =
             ((case u of Some i \<Rightarrow> i | None \<Rightarrow> submitter p) =
                (case v of Some j \<Rightarrow> j | None \<Rightarrow> submitter q)
              \<and> content_type p = content_type q \<and> pk p = pk q)
       | _ \<Rightarrow> False)"
    by (simp add: PrimarySpeaker_init_def PrimarySpeaker_user_def PrimarySpeaker_proposal_def
        Model_eq_def split: option.splits)
  have 5: "(case (PrimarySpeaker_init None (Some i), PrimarySpeaker_init None (Some j)) of
         (Inr x, Inr y) \<Rightarrow> PrimarySpeaker_eq x (Primary y) = (i = j)
       | _ \<Rightarrow> False)"
    by (simp add: PrimarySpeaker_init_def PrimarySpeaker_user_def PrimarySpeaker_proposal_def)
  have 6: "(case (PrimarySpeaker_init None (Some i), PrimarySpeaker_init (Some q) v) of
         (Inr x, Inr y) \<Rightarrow> \<not> PrimarySpeaker_eq x (Primary y)
       | _ \<Rightarrow> False)"
    by (simp add: PrimarySpeaker_init_def PrimarySpeaker_user_def PrimarySpeaker_proposal_def
        split: option.splits)
  show ?thesis
    by (intro conjI) (fact 1, fact 2, fact 3, fact 4, fact 5, fact 6)
qed

subsection \<open>Completion metrics\<close>

lemma sum_truthy_must_fill:
  "sum_truthy p must_fill_fields =
     Inr (int (length (filter (\<lambda>v. v \<noteq> [])
        [abstract p, objective p, supplementary p, detailed_description p, outline p])))"
  by (simp add: must_fill_fields_def getattr_def)

text \<open>
  C4. With n the number of the five mandatory fields (abstract, objective,
  supplementary, detailed_description, outline) that are non-empty:
  must_fill_fields_count is 5, finished_fields_count is n, finish_percentage is
  100 * n floor-divided by 5, which is exactly 20 * n (0, 20, 40, 60, 80, 100 for
  n from 0 to 5), and unfinished_fields_count is 5 - n. None of them raises.
\<close>

theorem completion_metrics:
  "\<exists>n. n = int (length (filter (\<lambda>v. v \<noteq> [])
             [abstract p, objective p, supplementary p, detailed_description p, outline p]))
      \<and> must_fill_fields_count p = 5
      \<and> finished_fields_count p = Inr n
      \<and> 0 \<le> n \<and> n \<le> 5
      \<and> finish_percentage p = Inr (100 * n div 5)
      \<and> finish_percentage p = Inr (20 * n)
      \<and> unfinished_fields_count p = Inr (5 - n)"
proof -
  let ?n = "int (length (filter (\<lambda>v. v \<noteq> [])
             [abstract p, objective p, supplementary p, detailed_description p, outline p]))"
  have c: "must_fill_fields_count p = 5"
    by (simp add: must_fill_fields_count_def must_fill_fields_def)
  have f: "finished_fields_count p = Inr ?n"
    by (simp only: finished_fields_count_def sum_truthy_must_fill)
  have b: "0 \<le> ?n \<and> ?n \<le> 5"
    by simp
  have d: "100 * ?n div 5 = 20 * ?n"
    by simp
  have pc: "finish_percentage p = Inr (100 * ?n div 5)"
    by (simp only: finish_percentage_def f c floordiv_def sum.case) simp
  have u: "unfinished_fields_count p = Inr (5 - ?n)"
    by (simp only: unfinished_fields_count_def f c sum.case)
  from c f b d pc u show ?thesis by metis
qed

subsection \<open>Query-set filters\<close>

text \<open>
  C6. A proposal is in the result of filter_accepted exactly when it is in the
  query set, its cancelled flag is false and its accepted field is true; no
  cancelled proposal is in the result, whatever its accepted field.
\<close>

theorem filter_accepted_iff:
  "(p \<in> set (filter_accepted qs) \<longleftrightarrow>
      p \<in> set qs \<and> cancelled p = False \<and> accepted p = Some True)
   \<and> \<not> (\<exists>q \<in> set (filter_accepted qs). cancelled q = True)"
  by (auto simp: filter_accepted_def)

lemma in_map_const: "x \<in> set (map (\<lambda>j. p) xs) \<longleftrightarrow> xs \<noteq> [] \<and> x = p"
  by (cases xs) auto

lemma filter_viewable_Cons:
  "filter_viewable tbl (q # qs) u =
     map (\<lambda>j. q)
       (filter (\<lambda>j. submitter q = user_pk u \<or>
                  (case j of None \<Rightarrow> False | Some a \<Rightarrow> pk_in a (cospeaking_info_set u)))
          (left_join tbl q))
     @ filter_viewable tbl qs u"
  by (simp add: filter_viewable_def)

lemma left_join_match:
  "filter (\<lambda>j. own \<or> (case j of None \<Rightarrow> False | Some a \<Rightarrow> P a)) (left_join tbl p) \<noteq> [] \<longleftrightarrow>
     own \<or> (\<exists>a \<in> set tbl. relates_to p a \<and> P a)"
proof (cases "filter (relates_to p) tbl = []")
  case True
  then have "\<forall>a \<in> set tbl. \<not> relates_to p a"
    by (simp add: filter_empty_conv)
  then show ?thesis
    using True by (auto simp: left_join_def)
next
  case False
  then obtain b where b: "b \<in> set tbl" "relates_to p b"
    by (auto simp: filter_empty_conv)
  have "filter (\<lambda>j. own \<or> (case j of None \<Rightarrow> False | Some a \<Rightarrow> P a))
          (map Some (filter (relates_to p) tbl)) \<noteq> [] \<longleftrightarrow>
        own \<or> (\<exists>a \<in> set tbl. relates_to p a \<and> P a)"
    using b by (auto simp: filter_empty_conv)
  then show ?thesis
    using False by (simp add: left_join_def)
qed

lemma in_filter_viewable:
  "p \<in> set (filter_viewable tbl qs u) \<longleftrightarrow>
     p \<in> set qs \<and> (submitter p = user_pk u
        \<or> (\<exists>a \<in> set tbl. relates_to p a \<and> pk_in a (cospeaking_info_set u)))"
proof (induction qs)
  case Nil
  show ?case by (simp add: filter_viewable_def)
next
  case (Cons q qs)
  have "p \<in> set (filter_viewable tbl (q # qs) u) \<longleftrightarrow>
          (p = q \<and> (submitter q = user_pk u
             \<or> (\<exists>a \<in> set tbl. relates_to q a \<and> pk_in a (cospeaking_info_set u))))
          \<or> p \<in> set (filter_viewable tbl qs u)"
    by (simp only: filter_viewable_Cons set_append Un_iff in_map_const left_join_match) blast
  then show ?case
    using Cons.IH by auto
qed

lemma in_filter_reviewable:
  "p \<in> set (filter_reviewable tbl qs u) \<longleftrightarrow>
     p \<in> set qs \<and> cancelled p = False \<and> submitter p \<noteq> user_pk u
        \<and> \<not> (\<exists>a \<in> set tbl. relates_to p a \<and> pk_in a (cospeaking_info_set u))"
  by (auto simp: filter_reviewable_def list_ex_iff)

text \<open>
  C5. For a proposal of the collection: if the user submitted it, or one of its
  additional-speaker rows is among the user's co-speaking rows, it is in
  filter_viewable and not in filter_reviewable; if it is not cancelled, was not
  submitted by the user and none of its rows is among the user's co-speaking rows,
  it is in filter_reviewable and not in filter_viewable.
\<close>

theorem viewable_and_reviewable:
  assumes "p \<in> set qs"
  shows "(submitter p = user_pk u
            \<or> (\<exists>a \<in> set tbl. relates_to p a \<and> pk_in a (cospeaking_info_set u))
          \<longrightarrow> p \<in> set (filter_viewable tbl qs u) \<and> p \<notin> set (filter_reviewable tbl qs u))
       \<and> (cancelled p = False \<and> submitter p \<noteq> user_pk u
            \<and> \<not> (\<exists>a \<in> set tbl. relates_to p a \<and> pk_in a (cospeaking_info_set u))
          \<longrightarrow> p \<in> set (filter_reviewable tbl qs u) \<and> p \<notin> set (filter_viewable tbl qs u))"
  using assms by (simp only: in_filter_viewable in_filter_reviewable) blast

text \<open>
  The theorem on the example collection, for the user with key 20: the talk the user
  co-speaks and the talk the user submitted are viewable and not reviewable; the
  unrelated talk with key 3 is reviewable and not viewable.
\<close>

theorem viewable_and_reviewable_witness:
  "talk 1 10 False \<in> set (filter_viewable example_table example_proposals example_user)
   \<and> talk 1 10 False \<notin> set (filter_reviewable example_table example_proposals example_user)
   \<and> talk 2 20 False \<in> set (filter_viewable example_table example_proposals example_user)
   \<and> talk 2 20 False \<notin> set (filter_reviewable example_table example_proposals example_user)
   \<and> talk 3 50 False \<in> set (filter_reviewable example_table example_proposals example_user)
   \<and> talk 3 50 False \<notin> set (filter_viewable example_table example_proposals example_user)"
proof -
  have m: "talk 1 10 False \<in> set example_proposals" "talk 2 20 False \<in> set example_proposals"
    "talk 3 50 False \<in> set example_proposals"
    by (simp_all add: example_proposals_def)
  have co: "\<exists>a \<in> set example_table. relates_to (talk 1 10 False) a
              \<and> pk_in a (cospeaking_info_set example_user)"
    by (simp add: example_table_def example_user_def relates_to_def pk_in_def talk_def
        cospeaker_def)
  have own: "submitter (talk 2 20 False) = user_pk example_user"
    by (simp add: talk_def example_user_def)
  have un: "cancelled (talk 3 50 False) = False \<and> submitter (talk 3 50 False) \<noteq> user_pk example_user
              \<and> \<not> (\<exists>a \<in> set example_table. relates_to (talk 3 50 False) a
                       \<and> pk_in a (cospeaking_info_set example_user))"
    by (simp add: example_table_def example_user_def relates_to_def pk_in_def talk_def
        cospeaker_def)
  from viewable_and_reviewable [OF m(1), of example_user example_table]
    viewable_and_reviewable [OF m(2), of example_user example_table]
    viewable_and_reviewable [OF m(3), of example_user example_table]
    co own un
  show ?thesis by blast
qed

subsection \<open>Speakers of a proposal\<close>


















subsection \<open>Uniqueness constraints\<close>

lemma insert_row_conflict:
  "k r \<in> set (map k tbl) \<Longrightarrow> insert_row k tbl r = Inl IntegrityError"
  by (simp add: insert_row_def)

lemma insert_row_distinct:
  "distinct (map k tbl) \<Longrightarrow> insert_row k tbl r = Inr tbl' \<Longrightarrow> distinct (map k tbl')"
  by (auto simp: insert_row_def split: if_splits)

lemma insert_rows_distinct:
  "distinct (map k tbl) \<Longrightarrow> distinct (map k (insert_rows k tbl rs))"
proof (induction rs arbitrary: tbl)
  case Nil
  then show ?case by simp
next
  case (Cons r rs)
  show ?case
  proof (cases "insert_row k tbl r")
    case (Inl e)
    then show ?thesis using Cons by simp
  next
    case (Inr tbl')
    have "distinct (map k tbl')"
      by (rule insert_row_distinct [OF Cons.prems Inr])
    then have "distinct (map k (insert_rows k tbl' rs))"
      by (rule Cons.IH)
    then show ?thesis using Inr by simp
  qed
qed

text \<open>
  C9. Inserting an AdditionalSpeaker whose (user, proposal type, proposal id) equals
  that of a stored row, or an LLMReview whose (proposal, stage) equals that of a
  stored row, fails with IntegrityError; and whatever rows are inserted into an
  empty table, the table never holds two rows with the same key.
\<close>

theorem unique_together_enforced:
  "(b \<in> set tbl \<and> AdditionalSpeaker_unique_together a = AdditionalSpeaker_unique_together b
      \<longrightarrow> insert_AdditionalSpeaker tbl a = Inl IntegrityError)
   \<and> (s \<in> set rtbl \<and> LLMReview_unique_together r = LLMReview_unique_together s
      \<longrightarrow> insert_LLMReview rtbl r = Inl IntegrityError)
   \<and> distinct (map AdditionalSpeaker_unique_together
        (insert_rows AdditionalSpeaker_unique_together [] rows))
   \<and> distinct (map LLMReview_unique_together
        (insert_rows LLMReview_unique_together [] reviews))"
proof -
  have 1: "b \<in> set tbl \<and> AdditionalSpeaker_unique_together a = AdditionalSpeaker_unique_together b
      \<longrightarrow> insert_AdditionalSpeaker tbl a = Inl IntegrityError"
    by (auto simp: insert_AdditionalSpeaker_def insert_row_def)
  have 2: "s \<in> set rtbl \<and> LLMReview_unique_together r = LLMReview_unique_together s
      \<longrightarrow> insert_LLMReview rtbl r = Inl IntegrityError"
    by (auto simp: insert_LLMReview_def insert_row_def)
  have 3: "distinct (map AdditionalSpeaker_unique_together
        (insert_rows AdditionalSpeaker_unique_together [] rows))"
    by (rule insert_rows_distinct) simp
  have 4: "distinct (map LLMReview_unique_together
        (insert_rows LLMReview_unique_together [] reviews))"
    by (rule insert_rows_distinct) simp
  show ?thesis
    by (intro conjI) (fact 1, fact 2, fact 3, fact 4)
qed

text \<open>
  The theorem at a second invitation of user 20 to talk 1 and a second stage-1
  review of talk 1: both are refused, while a row with a new key is stored.
\<close>

theorem unique_together_enforced_witness:
  "insert_AdditionalSpeaker [cospeaker 1 20 1 False] (cospeaker 5 20 1 True) = Inl IntegrityError
   \<and> insert_LLMReview [review 1 1 STAGE_1] (review 2 1 STAGE_1) = Inl IntegrityError
   \<and> insert_AdditionalSpeaker [cospeaker 1 20 1 False] (cospeaker 5 30 1 False) =
       Inr [cospeaker 1 20 1 False, cospeaker 5 30 1 False]
   \<and> insert_LLMReview [review 1 1 STAGE_1] (review 2 1 STAGE_2) =
       Inr [review 1 1 STAGE_1, review 2 1 STAGE_2]"
proof -
  have k: "AdditionalSpeaker_unique_together (cospeaker 5 20 1 True) =
             AdditionalSpeaker_unique_together (cospeaker 1 20 1 False)"
    "LLMReview_unique_together (review 2 1 STAGE_1) = LLMReview_unique_together (review 1 1 STAGE_1)"
    by (simp_all add: AdditionalSpeaker_unique_together_def LLMReview_unique_together_def
        cospeaker_def review_def)
  have ok: "insert_AdditionalSpeaker [cospeaker 1 20 1 False] (cospeaker 5 30 1 False) =
       Inr [cospeaker 1 20 1 False, cospeaker 5 30 1 False]"
    "insert_LLMReview [review 1 1 STAGE_1] (review 2 1 STAGE_2) =
       Inr [review 1 1 STAGE_1, review 2 1 STAGE_2]"
    by (simp_all add: insert_AdditionalSpeaker_def insert_LLMReview_def insert_row_def
        AdditionalSpeaker_unique_together_def LLMReview_unique_together_def cospeaker_def review_def)
  from unique_together_enforced [of "cospeaker 1 20 1 False" "[cospeaker 1 20 1 False]"
      "cospeaker 5 20 1 True" "review 1 1 STAGE_1" "[review 1 1 STAGE_1]" "review 2 1 STAGE_1"]
    k ok
  show ?thesis by simp
qed

end
